theory Spec2Isabelle
  imports Main
begin

section \<open>Emission nodes (src/OfflineASMC/CodeGen.h, lines 12--74)\<close>

text \<open>
  Class \<^verbatim>\<open>Label\<close> (lines 137--171): a name and four attributes, with the
  in-class initialisers \<^verbatim>\<open>false\<close>, \<^verbatim>\<open>false\<close>, \<^verbatim>\<open>0\<close>, \<^verbatim>\<open>false\<close>.
  \<^verbatim>\<open>m_alignTo\<close> is a C \<^verbatim>\<open>int\<close> that is only stored, never computed with,
  so it is an \<open>int\<close> here.
\<close>

record Label =
  name :: string
  m_inFile :: bool
  m_global :: bool
  m_alignTo :: int
  m_extern :: bool

text \<open>
  The class hierarchy under \<^verbatim>\<open>Generator\<close>: one constructor per concrete class.
  \<^verbatim>\<open>Code\<close> is \<^verbatim>\<open>std::unique_ptr<Generator>\<close>; a node is owned by its parent,
  so a tree of values has the same shape.
\<close>

datatype Generator =
    TextGenerator string
  | Reg string
  | SequenceGenerator "Generator list"
  | Label Label

text \<open>
  The virtual method \<^verbatim>\<open>generate\<close>. The loop of \<^verbatim>\<open>SequenceGenerator::generate\<close>
  (lines 51--57) starts from the empty string and appends each child's text.
  \<^verbatim>\<open>Label::generate\<close> (lines 141--143) returns the name and reads no attribute.
\<close>

fun generate :: "Generator \<Rightarrow> string" where
  "generate (TextGenerator t) = t"
| "generate (Reg n) = n"
| "generate (SequenceGenerator sequence) =
     foldl (\<lambda>result code. result @ generate code) [] sequence"
| "generate (Label l) = name l"

text \<open>
  The helpers \<^verbatim>\<open>seq\<close>, \<^verbatim>\<open>text\<close> and \<^verbatim>\<open>reg\<close> (lines 63--74). The variadic
  arguments of \<^verbatim>\<open>seq\<close> are the list. \<^verbatim>\<open>reg\<close> names a class \<^verbatim>\<open>RegGenerator\<close>
  that the file does not declare; its return type \<^verbatim>\<open>Reg\<close> is the class built here.
\<close>

definition seq :: "Generator list \<Rightarrow> Generator" where
  "seq args = SequenceGenerator args"

definition text' :: "string \<Rightarrow> Generator" where
  "text' expr = TextGenerator expr"

definition reg :: "string \<Rightarrow> Generator" where
  "reg expr = Reg expr"

section \<open>Outcomes of a call\<close>

text \<open>
  A call either returns, or ends the process through \<^verbatim>\<open>std::exit\<close> with a status,
  or does something C++ leaves undefined (\<^verbatim>\<open>top()\<close> of an empty \<^verbatim>\<open>std::stack\<close>, a
  destructor invoked on an object that is already being destroyed, a member call on a
  standard container that is being destroyed). \<open>Undefined\<close> promises nothing: not an
  exit status, not a return. \<open>bind_outcome\<close> is sequencing: what follows a call runs
  only if the call returned.
\<close>

datatype 'a outcome = Returned 'a | Exited int | Undefined

definition bind_outcome :: "'a outcome \<Rightarrow> ('a \<Rightarrow> 'b outcome) \<Rightarrow> 'b outcome" where
  "bind_outcome x k = (case x of Returned a \<Rightarrow> k a | Exited n \<Rightarrow> Exited n | Undefined \<Rightarrow> Undefined)"

section \<open>The scope stack (lines 76--103)\<close>

text \<open>
  A \<^verbatim>\<open>CodeCollectionScope\<close> object holds the vector \<^verbatim>\<open>codes\<close>. Objects live at
  addresses; \<^verbatim>\<open>s_scopes\<close> is the static stack of owning pointers, top first;
  \<open>next_free\<close> is the address the next \<^verbatim>\<open>new\<close> returns.
\<close>

record CodeCollectionScope =
  codes :: "Generator list"

type_synonym addr = nat

record memory =
  objects :: "addr \<Rightarrow> CodeCollectionScope option"
  s_scopes :: "addr list"
  next_free :: addr

text \<open>
  The constructor (lines 81--84), run on the object at \<open>this\<close> after its member
  \<^verbatim>\<open>codes\<close> has been initialised empty. Its body pushes
  \<^verbatim>\<open>std::make_unique<CodeCollectionScope>()\<close>: a new object is allocated, the same
  constructor runs on it, and only when that returns is the pointer pushed. A call that
  does not return has the value \<open>None\<close>.
\<close>

partial_function (option) CodeCollectionScope_ctor :: "addr \<Rightarrow> memory \<Rightarrow> memory option" where
  "CodeCollectionScope_ctor this m =
     Option.bind
       (CodeCollectionScope_ctor (next_free m)
          (m\<lparr>objects := (objects m)(this \<mapsto> \<lparr>codes = []\<rparr>),
             next_free := Suc (next_free m)\<rparr>))
       (\<lambda>m'. Some (m'\<lparr>s_scopes := next_free m # s_scopes m'\<rparr>))"



text \<open>The methods \<^verbatim>\<open>addCode\<close> and \<^verbatim>\<open>code\<close> (lines 93--99) of one scope object.\<close>

definition addCode :: "Generator \<Rightarrow> CodeCollectionScope \<Rightarrow> CodeCollectionScope" where
  "addCode code s = s\<lparr>codes := codes s @ [code]\<rparr>"

definition code :: "CodeCollectionScope \<Rightarrow> Generator" where
  "code s = seq (codes s)"

section \<open>The instruction table (lines 105--131)\<close>

text \<open>
  Each \<^verbatim>\<open>INSTR(name, impl)\<close> declares \<^verbatim>\<open>name_impl\<close>, whose body is \<^verbatim>\<open>impl\<close> over
  the vector \<^verbatim>\<open>operands\<close>, and the variadic \<^verbatim>\<open>name\<close>, which passes its arguments as
  that vector. The string literals stand where a node is expected; the file builds a
  node from a string with \<^verbatim>\<open>text\<close>, which is how they are read. \<^verbatim>\<open>seq(operands)\<close>
  is the sequence node over the vector. The body of \<^verbatim>\<open>error\<close> calls
  \<^verbatim>\<open>std::exit(1)\<close> before anything is built. The source's \<^verbatim>\<open>_break\<close> is
  \<open>underscore_break\<close> here.
\<close>

definition addp_impl :: "Generator list \<Rightarrow> Generator outcome" where
  "addp_impl operands = Returned (seq [text' ''add'', seq operands, text' ''32''])"

definition addp :: "Generator list \<Rightarrow> Generator outcome" where
  "addp args = addp_impl args"

definition push_impl :: "Generator list \<Rightarrow> Generator outcome" where
  "push_impl operands = Returned (seq [text' ''push'', seq operands, text' ''32''])"

definition push :: "Generator list \<Rightarrow> Generator outcome" where
  "push args = push_impl args"

definition error_impl :: "Generator list \<Rightarrow> Generator outcome" where
  "error_impl operands = Exited 1"

definition error :: "Generator list \<Rightarrow> Generator outcome" where
  "error args = error_impl args"

definition move_impl :: "Generator list \<Rightarrow> Generator outcome" where
  "move_impl operands = Returned (seq [text' ''move'', seq operands, text' ''32''])"

definition move :: "Generator list \<Rightarrow> Generator outcome" where
  "move args = move_impl args"

definition pop_impl :: "Generator list \<Rightarrow> Generator outcome" where
  "pop_impl operands = Returned (seq [text' ''pop'', seq operands, text' ''32''])"

definition pop :: "Generator list \<Rightarrow> Generator outcome" where
  "pop args = pop_impl args"

definition subp_impl :: "Generator list \<Rightarrow> Generator outcome" where
  "subp_impl operands = Returned (seq [text' ''sub'', seq operands, text' ''32''])"

definition subp :: "Generator list \<Rightarrow> Generator outcome" where
  "subp args = subp_impl args"

definition storepairq_impl :: "Generator list \<Rightarrow> Generator outcome" where
  "storepairq_impl operands = Returned (seq [text' ''storepairq'', seq operands, text' ''32''])"

definition storepairq :: "Generator list \<Rightarrow> Generator outcome" where
  "storepairq args = storepairq_impl args"

definition storeq_impl :: "Generator list \<Rightarrow> Generator outcome" where
  "storeq_impl operands = Returned (seq [text' ''storeq'', seq operands, text' ''32''])"

definition storeq :: "Generator list \<Rightarrow> Generator outcome" where
  "storeq args = storeq_impl args"

definition loadpairq_impl :: "Generator list \<Rightarrow> Generator outcome" where
  "loadpairq_impl operands = Returned (seq [text' ''loadpairq'', seq operands, text' ''32''])"

definition loadpairq :: "Generator list \<Rightarrow> Generator outcome" where
  "loadpairq args = loadpairq_impl args"

definition loadq_impl :: "Generator list \<Rightarrow> Generator outcome" where
  "loadq_impl operands = Returned (seq [text' ''loadq'', seq operands, text' ''32''])"

definition loadq :: "Generator list \<Rightarrow> Generator outcome" where
  "loadq args = loadq_impl args"

definition underscore_break_impl :: "Generator list \<Rightarrow> Generator outcome" where
  "underscore_break_impl operands = Returned (seq [text' ''brk'', seq operands, text' ''32''])"

definition underscore_break :: "Generator list \<Rightarrow> Generator outcome" where
  "underscore_break args = underscore_break_impl args"

definition jmp_impl :: "Generator list \<Rightarrow> Generator outcome" where
  "jmp_impl operands = Returned (seq [text' ''jmp'', seq operands, text' ''32''])"

definition jmp :: "Generator list \<Rightarrow> Generator outcome" where
  "jmp args = jmp_impl args"

definition ret_impl :: "Generator list \<Rightarrow> Generator outcome" where
  "ret_impl operands = Returned (seq [text' ''ret'', seq operands, text' ''32''])"

definition ret :: "Generator list \<Rightarrow> Generator outcome" where
  "ret args = ret_impl args"

definition call_impl :: "Generator list \<Rightarrow> Generator outcome" where
  "call_impl operands = Returned (seq [text' ''call'', seq operands, text' ''32''])"

definition call :: "Generator list \<Rightarrow> Generator outcome" where
  "call args = call_impl args"

definition bpeq_impl :: "Generator list \<Rightarrow> Generator outcome" where
  "bpeq_impl operands = Returned (seq [text' ''bpeq'', seq operands, text' ''32''])"

definition bpeq :: "Generator list \<Rightarrow> Generator outcome" where
  "bpeq args = bpeq_impl args"

text \<open>The table: every constructor the macro declares, under its name in the source, in order.\<close>

definition instr_table :: "(string \<times> (Generator list \<Rightarrow> Generator outcome)) list" where
  "instr_table =
    [(''addp'', addp),
     (''push'', push),
     (''error'', error),
     (''move'', move),
     (''pop'', pop),
     (''subp'', subp),
     (''storepairq'', storepairq),
     (''storeq'', storeq),
     (''loadpairq'', loadpairq),
     (''loadq'', loadq),
     (''_break'', underscore_break),
     (''jmp'', jmp),
     (''ret'', ret),
     (''call'', call),
     (''bpeq'', bpeq)]"

text \<open>
  A generation run that builds one instruction after the other: each entry is a
  constructor with its operands, and the run goes on only while the calls return.
\<close>

fun build_all :: "((Generator list \<Rightarrow> Generator outcome) \<times> Generator list) list \<Rightarrow> Generator list outcome" where
  "build_all [] = Returned []"
| "build_all (c # cs) =
     bind_outcome (fst c (snd c)) (\<lambda>g. bind_outcome (build_all cs) (\<lambda>gs. Returned (g # gs)))"

text \<open>
  The expected mnemonic of a constructor, to compare the table with: the constructor's
  name, except that \<^verbatim>\<open>addp\<close> writes \<^verbatim>\<open>add\<close>, \<^verbatim>\<open>subp\<close> writes \<^verbatim>\<open>sub\<close>
  and \<^verbatim>\<open>_break\<close> writes \<^verbatim>\<open>brk\<close>.
\<close>

definition mnemonic :: "string \<Rightarrow> string" where
  "mnemonic n =
     (if n = ''addp'' then ''add''
      else if n = ''subp'' then ''sub''
      else if n = ''_break'' then ''brk''
      else n)"

section \<open>Address operands (lines 133--135)\<close>





section \<open>Labels (lines 137--175)\<close>

text \<open>
  \<^verbatim>\<open>label(name)\<close> makes a label with the default attributes. Each builder method
  assigns one member and returns the label itself. The source's \<^verbatim>\<open>extern_\<close> is
  \<open>extern'\<close> here.
\<close>

definition label :: "string \<Rightarrow> Label" where
  "label n = \<lparr>name = n, m_inFile = False, m_global = False, m_alignTo = 0, m_extern = False\<rparr>"

definition inFile :: "Label \<Rightarrow> Label" where
  "inFile l = l\<lparr>m_inFile := True\<rparr>"

definition global :: "Label \<Rightarrow> Label" where
  "global l = l\<lparr>m_global := True\<rparr>"

definition aligned :: "int \<Rightarrow> Label \<Rightarrow> Label" where
  "aligned alignTo l = l\<lparr>m_alignTo := alignTo\<rparr>"

definition extern' :: "Label \<Rightarrow> Label" where
  "extern' l = l\<lparr>m_extern := True\<rparr>"

text \<open>
  A chain of builder calls, such as \<^verbatim>\<open>label("f")->global().aligned(4)\<close>, as the list
  of its calls, applied from left to right.
\<close>

datatype builder_call = InFile | Global | Aligned int | Extern

fun call_builder :: "builder_call \<Rightarrow> Label \<Rightarrow> Label" where
  "call_builder InFile l = inFile l"
| "call_builder Global l = global l"
| "call_builder (Aligned alignTo) l = aligned alignTo l"
| "call_builder Extern l = extern' l"

definition build_label :: "builder_call list \<Rightarrow> Label \<Rightarrow> Label" where
  "build_label cs l = foldl (\<lambda>l' c. call_builder c l') l cs"

section \<open>The register table (lines 177--238)\<close>

text \<open>
  The file selects \<^verbatim>\<open>ARM64\<close> and binds each logical register to a node. The
  references (\<^verbatim>\<open>auto& ws0 = t9\<close>) are further names of the same node.
\<close>

definition invalidGPR :: Generator where
  "invalidGPR = reg ''invalid''"

definition t0 :: Generator where
  "t0 = reg ''x0''"

definition t1 :: Generator where
  "t1 = reg ''x1''"

definition t2 :: Generator where
  "t2 = reg ''x2''"

definition t3 :: Generator where
  "t3 = reg ''x3''"

definition t4 :: Generator where
  "t4 = reg ''x4''"

definition t5 :: Generator where
  "t5 = reg ''x5''"

definition t6 :: Generator where
  "t6 = reg ''x6''"

definition t7 :: Generator where
  "t7 = reg ''x7''"

definition t8 :: Generator where
  "t8 = reg ''x8''"

definition t9 :: Generator where
  "t9 = reg ''x9''"

definition t10 :: Generator where
  "t10 = reg ''x10''"

definition t11 :: Generator where
  "t11 = reg ''x11''"

definition t12 :: Generator where
  "t12 = reg ''x12''"

definition cfr :: Generator where
  "cfr = reg ''x29''"

definition csr0 :: Generator where
  "csr0 = reg ''x19''"

definition csr1 :: Generator where
  "csr1 = reg ''x20''"

definition csr2 :: Generator where
  "csr2 = reg ''x21''"

definition csr3 :: Generator where
  "csr3 = reg ''x22''"

definition csr4 :: Generator where
  "csr4 = reg ''x23''"

definition csr5 :: Generator where
  "csr5 = reg ''x24''"

definition csr6 :: Generator where
  "csr6 = reg ''x25''"

definition csr7 :: Generator where
  "csr7 = reg ''x26''"

definition csr8 :: Generator where
  "csr8 = reg ''x27''"

definition csr9 :: Generator where
  "csr9 = reg ''x28''"

definition csr10 :: Generator where
  "csr10 = invalidGPR"

definition sp :: Generator where
  "sp = reg ''sp''"

definition lr :: Generator where
  "lr = reg ''lr''"

definition ws0 :: Generator where
  "ws0 = t9"

definition ws1 :: Generator where
  "ws1 = t10"

definition ws2 :: Generator where
  "ws2 = t11"

definition ws3 :: Generator where
  "ws3 = t12"

definition a0 :: Generator where
  "a0 = t0"

definition a1 :: Generator where
  "a1 = t1"

definition a2 :: Generator where
  "a2 = t2"

definition a3 :: Generator where
  "a3 = t3"

definition a4 :: Generator where
  "a4 = t4"

definition a5 :: Generator where
  "a5 = t5"

definition a6 :: Generator where
  "a6 = t6"

definition a7 :: Generator where
  "a7 = t7"

definition wa0 :: Generator where
  "wa0 = t0"

definition wa1 :: Generator where
  "wa1 = t1"

definition wa2 :: Generator where
  "wa2 = t2"

definition wa3 :: Generator where
  "wa3 = t3"

definition wa4 :: Generator where
  "wa4 = t4"

definition wa5 :: Generator where
  "wa5 = t5"

definition wa6 :: Generator where
  "wa6 = t6"

definition wa7 :: Generator where
  "wa7 = t7"

definition r0 :: Generator where
  "r0 = t0"

definition r1 :: Generator where
  "r1 = t1"

text \<open>Every logical register name the file declares, with the node it is bound to.\<close>

definition register_table :: "(string \<times> Generator) list" where
  "register_table =
    [(''t0'', t0), (''t1'', t1), (''t2'', t2), (''t3'', t3),
     (''t4'', t4), (''t5'', t5), (''t6'', t6), (''t7'', t7),
     (''t8'', t8), (''t9'', t9), (''t10'', t10), (''t11'', t11),
     (''t12'', t12), (''cfr'', cfr), (''csr0'', csr0), (''csr1'', csr1),
     (''csr2'', csr2), (''csr3'', csr3), (''csr4'', csr4), (''csr5'', csr5),
     (''csr6'', csr6), (''csr7'', csr7), (''csr8'', csr8), (''csr9'', csr9),
     (''csr10'', csr10), (''sp'', sp), (''lr'', lr), (''ws0'', ws0),
     (''ws1'', ws1), (''ws2'', ws2), (''ws3'', ws3), (''a0'', a0),
     (''a1'', a1), (''a2'', a2), (''a3'', a3), (''a4'', a4),
     (''a5'', a5), (''a6'', a6), (''a7'', a7), (''wa0'', wa0),
     (''wa1'', wa1), (''wa2'', wa2), (''wa3'', wa3), (''wa4'', wa4),
     (''wa5'', wa5), (''wa6'', wa6), (''wa7'', wa7), (''r0'', r0),
     (''r1'', r1)]"

text \<open>
  Not part of the repository: the names an AArch64 assembler reads as a general-purpose
  register (\<^verbatim>\<open>x0\<close>--\<^verbatim>\<open>x30\<close>, \<^verbatim>\<open>w0\<close>--\<^verbatim>\<open>w30\<close>, the stack pointer, the zero
  register, and the aliases \<^verbatim>\<open>fp\<close> and \<^verbatim>\<open>lr\<close>).
\<close>

definition arm64_gpr_names :: "string list" where
  "arm64_gpr_names =
    [''x0'', ''x1'', ''x2'', ''x3'', ''x4'', ''x5'', ''x6'', ''x7'',
     ''x8'', ''x9'', ''x10'', ''x11'', ''x12'', ''x13'', ''x14'', ''x15'',
     ''x16'', ''x17'', ''x18'', ''x19'', ''x20'', ''x21'', ''x22'', ''x23'',
     ''x24'', ''x25'', ''x26'', ''x27'', ''x28'', ''x29'', ''x30'',
     ''w0'', ''w1'', ''w2'', ''w3'', ''w4'', ''w5'', ''w6'', ''w7'',
     ''w8'', ''w9'', ''w10'', ''w11'', ''w12'', ''w13'', ''w14'', ''w15'',
     ''w16'', ''w17'', ''w18'', ''w19'', ''w20'', ''w21'', ''w22'', ''w23'',
     ''w24'', ''w25'', ''w26'', ''w27'', ''w28'', ''w29'', ''w30'',
     ''sp'', ''wsp'', ''xzr'', ''wzr'', ''fp'', ''lr'']"

section \<open>Rendering of sequences\<close>

lemma foldl_append_generate:
  "foldl (\<lambda>result code. result @ generate code) acc cs = acc @ concat (map generate cs)"
  by (induction cs arbitrary: acc) simp_all

lemma generate_seq: "generate (seq cs) = concat (map generate cs)"
  by (simp add: seq_def foldl_append_generate)

lemma generate_text': "generate (text' s) = s"
  by (simp add: text'_def)

lemma generate_reg: "generate (reg s) = s"
  by (simp add: reg_def)

text \<open>
  C1. Rendering the sequence node built from the two nodes \<open>s1\<close> and \<open>s2\<close> gives the
  text of \<open>s1\<close> followed by the text of \<open>s2\<close>, with nothing between them.
\<close>

theorem generate_seq_pair:
  "generate (seq [s1, s2]) = generate s1 @ generate s2"
  by (simp add: seq_def)

section \<open>Sequencing of calls\<close>

lemma bind_outcome_simps [simp]:
  "bind_outcome (Returned a) k = k a"
  "bind_outcome (Exited n) k = Exited n"
  "bind_outcome Undefined k = Undefined"
  by (simp_all add: bind_outcome_def)

lemma build_all_append:
  "build_all (xs @ ys) =
     bind_outcome (build_all xs) (\<lambda>gs. bind_outcome (build_all ys) (\<lambda>hs. Returned (gs @ hs)))"
proof (induction xs)
  case Nil
  show ?case by (cases "build_all ys") simp_all
next
  case (Cons c xs)
  show ?case
    by (cases "fst c (snd c)"; cases "build_all xs"; cases "build_all ys") (simp_all add: Cons.IH)
qed

lemma build_all_snoc_last:
  assumes "build_all (prev @ [c]) = Returned gs"
  shows "\<exists>g. fst c (snd c) = Returned g \<and> last gs = g"
proof -
  from assms obtain hs where "build_all prev = Returned hs"
    by (cases "build_all prev") (simp_all add: build_all_append)
  with assms show ?thesis
    by (cases "fst c (snd c)") (auto simp: build_all_append)
qed

section \<open>The scope stack\<close>

text \<open>
  What one scope object collects: after any number of \<^verbatim>\<open>addCode\<close> calls on a fresh
  object, \<^verbatim>\<open>code()\<close> renders the added nodes in the order of the calls. Only the
  object's own vector is read.
\<close>

lemma codes_foldl_addCode:
  "codes (foldl (\<lambda>s c. addCode c s) s0 cs) = codes s0 @ cs"
  by (induction cs arbitrary: s0) (simp_all add: addCode_def)

lemma generate_code_foldl_addCode:
  "generate (code (foldl (\<lambda>s c. addCode c s) \<lparr>codes = []\<rparr> cs)) = concat (map generate cs)"
  by (simp add: code_def generate_seq codes_foldl_addCode)

lemma CodeCollectionScope_ctor_no_result:
  assumes returns: "CodeCollectionScope_ctor this m = Some m'"
  shows False
proof (rule CodeCollectionScope_ctor.raw_induct [where P = "\<lambda>_ _ _. False", OF _ returns])
  fix ctor :: "addr \<Rightarrow> memory \<Rightarrow> memory option" and this m m'
  assume IH: "\<And>this m m'. ctor this m = Some m' \<Longrightarrow> False"
  assume "Option.bind
       (ctor (next_free m)
          (m\<lparr>objects := (objects m)(this \<mapsto> \<lparr>codes = []\<rparr>),
             next_free := Suc (next_free m)\<rparr>))
       (\<lambda>m'. Some (m'\<lparr>s_scopes := next_free m # s_scopes m'\<rparr>)) = Some m'"
  then obtain m1 where
    "ctor (next_free m)
       (m\<lparr>objects := (objects m)(this \<mapsto> \<lparr>codes = []\<rparr>),
          next_free := Suc (next_free m)\<rparr>) = Some m1"
    by (auto simp: Option.bind_eq_Some_conv)
  then show False by (rule IH)
qed

text \<open>
  C2 (what the code does where the claim starts). The claim is that pushing scope A, pushing
  scope B, popping B and popping A succeeds, and that the outer scope then renders
  everything added at both levels in insertion order. Pushing a scope is constructing a
  \<^verbatim>\<open>CodeCollectionScope\<close>. The constructor builds a further scope object before it
  pushes anything, and that object's constructor does the same: for every object and
  every state of the memory the construction does not return, so the first push of the
  claim's scenario never completes.
\<close>

theorem CodeCollectionScope_ctor_never_returns:
  "CodeCollectionScope_ctor this m = None"
  using CodeCollectionScope_ctor_no_result [of this m]
  by (cases "CodeCollectionScope_ctor this m") auto



section \<open>Labels\<close>

text \<open>
  C4, counterexample. The claim is that a label with default attributes renders to a
  directive block that always holds the section directive and the symbol name followed
  by a colon. The label \<^verbatim>\<open>label("foo")\<close> renders to \<^verbatim>\<open>foo\<close>: the text has no colon
  (and no full stop, which every section directive starts with).
\<close>

theorem label_default_no_colon:
  "generate (Label (label ''foo'')) = ''foo'' \<and>
   CHR '':'' \<notin> set (generate (Label (label ''foo''))) \<and>
   CHR ''.'' \<notin> set (generate (Label (label ''foo'')))"
  by (simp add: label_def)

text \<open>
  C4, amended. A label whose attributes are all left at their defaults renders to
  exactly its name, with no directive text added: no alignment directive, no
  alternate-entry directive, no section directive and no colon after the name.
\<close>

theorem label_default_generate:
  "generate (Label (label n)) = n"
  by (simp add: label_def)

lemmas builder_defs = inFile_def global_def aligned_def extern'_def

lemma build_label_Nil: "build_label [] l = l"
  by (simp add: build_label_def)

lemma build_label_snoc: "build_label (cs @ [c]) l = call_builder c (build_label cs l)"
  by (simp add: build_label_def)

lemma call_builder_idem: "call_builder c (call_builder c l) = call_builder c l"
  by (cases c) (simp_all add: builder_defs)

lemma name_build_label: "name (build_label cs l) = name l"
proof (induction cs rule: rev_induct)
  case Nil
  show ?case by (simp add: build_label_Nil)
next
  case (snoc c cs)
  then show ?case by (cases c) (simp_all add: build_label_snoc builder_defs)
qed

lemma m_inFile_build_label: "m_inFile (build_label cs l) = (m_inFile l \<or> InFile \<in> set cs)"
proof (induction cs rule: rev_induct)
  case Nil
  show ?case by (simp add: build_label_Nil)
next
  case (snoc c cs)
  then show ?case by (cases c) (simp_all add: build_label_snoc builder_defs)
qed

lemma m_global_build_label: "m_global (build_label cs l) = (m_global l \<or> Global \<in> set cs)"
proof (induction cs rule: rev_induct)
  case Nil
  show ?case by (simp add: build_label_Nil)
next
  case (snoc c cs)
  then show ?case by (cases c) (simp_all add: build_label_snoc builder_defs)
qed

lemma m_extern_build_label: "m_extern (build_label cs l) = (m_extern l \<or> Extern \<in> set cs)"
proof (induction cs rule: rev_induct)
  case Nil
  show ?case by (simp add: build_label_Nil)
next
  case (snoc c cs)
  then show ?case by (cases c) (simp_all add: build_label_snoc builder_defs)
qed

lemma m_alignTo_build_label_none:
  "\<forall>a. Aligned a \<notin> set cs \<Longrightarrow> m_alignTo (build_label cs l) = m_alignTo l"
proof (induction cs rule: rev_induct)
  case Nil
  show ?case by (simp add: build_label_Nil)
next
  case (snoc c cs)
  from snoc.prems have "\<forall>a. Aligned a \<notin> set cs" by simp
  then have IH: "m_alignTo (build_label cs l) = m_alignTo l" by (rule snoc.IH)
  from snoc.prems have "\<forall>a. c \<noteq> Aligned a" by auto
  then show ?case
    by (cases c) (simp_all add: build_label_snoc builder_defs IH)
qed

lemma m_alignTo_build_label_one:
  "Aligned a \<in> set cs \<Longrightarrow> \<forall>b. Aligned b \<in> set cs \<longrightarrow> b = a \<Longrightarrow>
     m_alignTo (build_label cs l) = a"
proof (induction cs rule: rev_induct)
  case Nil
  then show ?case by simp
next
  case (snoc c cs)
  show ?case
  proof (cases "\<exists>b. c = Aligned b")
    case True
    then obtain b where c: "c = Aligned b" ..
    with snoc.prems(2) have "b = a" by simp
    with c show ?thesis by (simp add: build_label_snoc builder_defs)
  next
    case False
    with snoc.prems(1) have in_cs: "Aligned a \<in> set cs" by auto
    from snoc.prems(2) have "\<forall>b. Aligned b \<in> set cs \<longrightarrow> b = a" by simp
    with in_cs have IH: "m_alignTo (build_label cs l) = a" by (rule snoc.IH)
    from False show ?thesis
      by (cases c) (simp_all add: build_label_snoc builder_defs IH)
  qed
qed

lemma m_alignTo_build_label_cong:
  assumes same: "set cs = set cs'"
    and one: "\<forall>a b. Aligned a \<in> set cs \<longrightarrow> Aligned b \<in> set cs \<longrightarrow> a = b"
  shows "m_alignTo (build_label cs l) = m_alignTo (build_label cs' l)"
proof (cases "\<exists>a. Aligned a \<in> set cs")
  case True
  then obtain a where a: "Aligned a \<in> set cs" ..
  with one have u: "\<forall>b. Aligned b \<in> set cs \<longrightarrow> b = a" by blast
  from a u have "m_alignTo (build_label cs l) = a" by (rule m_alignTo_build_label_one)
  moreover have "m_alignTo (build_label cs' l) = a"
  proof (rule m_alignTo_build_label_one)
    from a same show "Aligned a \<in> set cs'" by simp
    from u same show "\<forall>b. Aligned b \<in> set cs' \<longrightarrow> b = a" by simp
  qed
  ultimately show ?thesis by simp
next
  case False
  then have "\<forall>a. Aligned a \<notin> set cs" by simp
  moreover from this same have "\<forall>a. Aligned a \<notin> set cs'" by simp
  ultimately show ?thesis by (simp add: m_alignTo_build_label_none)
qed

lemma build_label_cong:
  assumes same: "set cs = set cs'"
    and one: "\<forall>a b. Aligned a \<in> set cs \<longrightarrow> Aligned b \<in> set cs \<longrightarrow> a = b"
  shows "build_label cs l = build_label cs' l"
proof (rule Label.equality)
  show "m_alignTo (build_label cs l) = m_alignTo (build_label cs' l)"
    using same one by (rule m_alignTo_build_label_cong)
qed (simp_all add: name_build_label m_inFile_build_label m_global_build_label
       m_extern_build_label same)

text \<open>
  C7. Each builder call (\<^verbatim>\<open>inFile\<close>, \<^verbatim>\<open>global\<close>, \<^verbatim>\<open>aligned\<close> with a given
  alignment, \<^verbatim>\<open>extern_\<close>) applied twice leaves the label as one application does. Two
  chains of builder calls that make the same calls, in any order and any number of times,
  with at most one alignment value among them (so in particular any two orderings of
  distinct builder operations), give the same attributes and the same rendered text.
\<close>

theorem builder_calls_idempotent_any_order:
  "call_builder c (call_builder c l) = call_builder c l \<and>
   (set cs = set cs' \<longrightarrow>
    (\<forall>a b. Aligned a \<in> set cs \<longrightarrow> Aligned b \<in> set cs \<longrightarrow> a = b) \<longrightarrow>
      build_label cs l = build_label cs' l \<and>
      generate (Label (build_label cs l)) = generate (Label (build_label cs' l)))"
  using build_label_cong [of cs cs' l] by (simp add: call_builder_idem)

text \<open>
  C7, witness: \<^verbatim>\<open>global().aligned(4).extern_().inFile()\<close> and
  \<^verbatim>\<open>inFile().extern_().global().global().aligned(4)\<close> on the label \<^verbatim>\<open>f\<close>.
\<close>

theorem builder_calls_idempotent_any_order_witness:
  "set [Global, Aligned 4, Extern, InFile] = set [InFile, Extern, Global, Global, Aligned 4] \<and>
   build_label [Global, Aligned 4, Extern, InFile] (label ''f'') =
     build_label [InFile, Extern, Global, Global, Aligned 4] (label ''f'')"
proof -
  have same: "set [Global, Aligned 4, Extern, InFile] = set [InFile, Extern, Global, Global, Aligned 4]"
    by auto
  have one: "\<forall>a b. Aligned a \<in> set [Global, Aligned 4, Extern, InFile] \<longrightarrow>
      Aligned b \<in> set [Global, Aligned 4, Extern, InFile] \<longrightarrow> a = b"
    by simp
  from builder_calls_idempotent_any_order
    [of Global "label ''f''" "[Global, Aligned 4, Extern, InFile]"
        "[InFile, Extern, Global, Global, Aligned 4]"] same one
  show ?thesis by blast
qed

section \<open>Instructions\<close>

lemmas instr_defs =
  addp_def addp_impl_def push_def push_impl_def move_def move_impl_def pop_def pop_impl_def
  subp_def subp_impl_def storepairq_def storepairq_impl_def storeq_def storeq_impl_def
  loadpairq_def loadpairq_impl_def loadq_def loadq_impl_def
  underscore_break_def underscore_break_impl_def jmp_def jmp_impl_def ret_def ret_impl_def
  call_def call_impl_def bpeq_def bpeq_impl_def

lemma generate_template:
  "generate (seq [text' m, seq operands, text' ''32'']) =
     m @ concat (map generate operands) @ ''32''"
  by (simp add: generate_seq generate_text')

lemma instr_table_templates:
  "list_all (\<lambda>(n, f). n \<noteq> ''error'' \<longrightarrow>
      (\<forall>operands. f operands = Returned (seq [text' (mnemonic n), seq operands, text' ''32''])))
     instr_table"
  by (simp add: instr_table_def instr_defs mnemonic_def)

text \<open>
  C5. Calling the constructor \<^verbatim>\<open>error\<close>, with any operands, ends the process with
  exit status 1: no node is returned, so there is no text to render; whatever is
  sequenced after the call does not run; and a run that reaches the call ends there,
  whatever instructions would follow.
\<close>

theorem error_exits:
  "error operands = Exited 1 \<and>
   bind_outcome (error operands) k = Exited 1 \<and>
   (build_all prev = Returned gs \<longrightarrow> build_all (prev @ (error, operands) # rest) = Exited 1)"
  by (simp add: error_def error_impl_def build_all_append)

text \<open>
  C5, witness: a run that builds \<^verbatim>\<open>move(t0, t1)\<close>, then calls \<^verbatim>\<open>error()\<close>, with
  \<^verbatim>\<open>ret()\<close> still to come.
\<close>

theorem error_exits_witness:
  "build_all [(move, [t0, t1])] = Returned [seq [text' ''move'', seq [t0, t1], text' ''32'']] \<and>
   build_all ([(move, [t0, t1])] @ (error, []) # [(ret, [])]) = Exited 1"
  using error_exits [of "[]" Returned "[(move, [t0, t1])]"
      "[seq [text' ''move'', seq [t0, t1], text' ''32'']]" "[(ret, [])]"]
  by (simp add: move_def move_impl_def)

text \<open>
  C9. \<^verbatim>\<open>move\<close> on the operands named \<^verbatim>\<open>x0\<close> and \<^verbatim>\<open>x1\<close> returns a node whose text
  is \<^verbatim>\<open>move\<close>, then \<^verbatim>\<open>x0\<close>, then \<^verbatim>\<open>x1\<close>, then \<^verbatim>\<open>32\<close>; and after any run of earlier
  constructor calls, however many, the node it adds renders to that same text.
\<close>

theorem move_x0_x1:
  "move [reg ''x0'', reg ''x1''] =
     Returned (seq [text' ''move'', seq [reg ''x0'', reg ''x1''], text' ''32'']) \<and>
   generate (seq [text' ''move'', seq [reg ''x0'', reg ''x1''], text' ''32'']) =
     ''move'' @ ''x0'' @ ''x1'' @ ''32'' \<and>
   (build_all (prev @ [(move, [reg ''x0'', reg ''x1''])]) = Returned gs \<longrightarrow>
      generate (last gs) = ''move'' @ ''x0'' @ ''x1'' @ ''32'')"
proof (intro conjI impI)
  show "move [reg ''x0'', reg ''x1''] =
      Returned (seq [text' ''move'', seq [reg ''x0'', reg ''x1''], text' ''32''])"
    by (simp add: move_def move_impl_def)
  show "generate (seq [text' ''move'', seq [reg ''x0'', reg ''x1''], text' ''32'']) =
     ''move'' @ ''x0'' @ ''x1'' @ ''32''"
    by (simp add: generate_template generate_reg del: generate.simps)
  assume "build_all (prev @ [(move, [reg ''x0'', reg ''x1''])]) = Returned gs"
  then have "\<exists>g. fst (move, [reg ''x0'', reg ''x1'']) (snd (move, [reg ''x0'', reg ''x1''])) =
      Returned g \<and> last gs = g"
    by (rule build_all_snoc_last)
  then have "last gs = seq [text' ''move'', seq [reg ''x0'', reg ''x1''], text' ''32'']"
    by (auto simp: move_def move_impl_def)
  then show "generate (last gs) = ''move'' @ ''x0'' @ ''x1'' @ ''32''"
    by (simp add: generate_template generate_reg del: generate.simps)
qed

text \<open>
  C9, witness: \<^verbatim>\<open>move(x0, x1)\<close> built after \<^verbatim>\<open>push(x19)\<close> and \<^verbatim>\<open>addp(x0)\<close>.
\<close>

theorem move_x0_x1_witness:
  "build_all ([(push, [reg ''x19'']), (addp, [reg ''x0''])] @ [(move, [reg ''x0'', reg ''x1''])]) =
     Returned [seq [text' ''push'', seq [reg ''x19''], text' ''32''],
               seq [text' ''add'', seq [reg ''x0''], text' ''32''],
               seq [text' ''move'', seq [reg ''x0'', reg ''x1''], text' ''32'']] \<and>
   generate (last [seq [text' ''push'', seq [reg ''x19''], text' ''32''],
               seq [text' ''add'', seq [reg ''x0''], text' ''32''],
               seq [text' ''move'', seq [reg ''x0'', reg ''x1''], text' ''32'']]) = ''movex0x132''"
proof -
  have run: "build_all ([(push, [reg ''x19'']), (addp, [reg ''x0''])] @ [(move, [reg ''x0'', reg ''x1''])]) =
     Returned [seq [text' ''push'', seq [reg ''x19''], text' ''32''],
               seq [text' ''add'', seq [reg ''x0''], text' ''32''],
               seq [text' ''move'', seq [reg ''x0'', reg ''x1''], text' ''32'']]"
    by (simp add: instr_defs)
  from move_x0_x1 [of "[(push, [reg ''x19'']), (addp, [reg ''x0''])]"
      "[seq [text' ''push'', seq [reg ''x19''], text' ''32''],
               seq [text' ''add'', seq [reg ''x0''], text' ''32''],
               seq [text' ''move'', seq [reg ''x0'', reg ''x1''], text' ''32'']]"] run
  show ?thesis by simp
qed

text \<open>
  C10. For every constructor of the table other than \<^verbatim>\<open>error\<close>, and every list of
  operands, the call returns a node whose text is the mnemonic, then the operands' texts
  in the order given, then \<^verbatim>\<open>32\<close>. The mnemonic is the constructor's name, except
  \<^verbatim>\<open>add\<close> for \<^verbatim>\<open>addp\<close>, \<^verbatim>\<open>sub\<close> for \<^verbatim>\<open>subp\<close> and \<^verbatim>\<open>brk\<close> for \<^verbatim>\<open>_break\<close>.
\<close>

theorem instr_table_rendering:
  "(n, f) \<in> set instr_table \<Longrightarrow> n \<noteq> ''error'' \<Longrightarrow>
     \<exists>g. f operands = Returned g \<and>
         generate g = mnemonic n @ concat (map generate operands) @ ''32''"
proof -
  assume mem: "(n, f) \<in> set instr_table" and n: "n \<noteq> ''error''"
  from instr_table_templates mem
  have "n \<noteq> ''error'' \<longrightarrow>
      (\<forall>operands. f operands = Returned (seq [text' (mnemonic n), seq operands, text' ''32'']))"
    by (auto simp: list_all_iff)
  with n have "f operands = Returned (seq [text' (mnemonic n), seq operands, text' ''32''])"
    by simp
  moreover have "generate (seq [text' (mnemonic n), seq operands, text' ''32'']) =
      mnemonic n @ concat (map generate operands) @ ''32''"
    by (rule generate_template)
  ultimately show ?thesis by blast
qed

text \<open>C10, witness: \<^verbatim>\<open>addp(t0, t1)\<close> renders to \<^verbatim>\<open>addx0x132\<close>.\<close>

theorem instr_table_rendering_witness:
  "(''addp'', addp) \<in> set instr_table \<and> ''addp'' \<noteq> ''error'' \<and>
   (\<exists>g. addp [t0, t1] = Returned g \<and> generate g = ''addx0x132'')"
  using instr_table_rendering [of "''addp''" addp "[t0, t1]"]
  by (simp add: instr_table_def mnemonic_def t0_def t1_def generate_reg)

section \<open>Address operands\<close>



section \<open>The register table\<close>

lemmas reg_defs =
  invalidGPR_def t0_def t1_def t2_def t3_def t4_def t5_def t6_def t7_def t8_def t9_def
  t10_def t11_def t12_def cfr_def csr0_def csr1_def csr2_def csr3_def csr4_def csr5_def
  csr6_def csr7_def csr8_def csr9_def csr10_def sp_def lr_def ws0_def ws1_def ws2_def ws3_def
  a0_def a1_def a2_def a3_def a4_def a5_def a6_def a7_def
  wa0_def wa1_def wa2_def wa3_def wa4_def wa5_def wa6_def wa7_def r0_def r1_def

text \<open>
  C8. \<^verbatim>\<open>csr10\<close>, which has no register on ARM64, is bound to the sentinel
  \<^verbatim>\<open>invalidGPR\<close>, whose text is \<^verbatim>\<open>invalid\<close>. For every logical register of the table:
  if it is bound to the sentinel then it is \<^verbatim>\<open>csr10\<close> and its text is not the name of
  an AArch64 general-purpose register; otherwise its text is such a name.
\<close>

theorem csr10_is_invalid_sentinel:
  "csr10 = invalidGPR \<and> (''csr10'', csr10) \<in> set register_table \<and>
   generate invalidGPR = ''invalid'' \<and>
   (\<forall>(n, r) \<in> set register_table.
      if r = invalidGPR then n = ''csr10'' \<and> generate r \<notin> set arm64_gpr_names
      else generate r \<in> set arm64_gpr_names)"
  by (simp add: register_table_def reg_defs reg_def arm64_gpr_names_def)

text \<open>C8, witness: the table's entry for \<^verbatim>\<open>csr10\<close>.\<close>

theorem csr10_is_invalid_sentinel_witness:
  "(''csr10'', csr10) \<in> set register_table \<and> generate csr10 = ''invalid'' \<and>
   ''invalid'' \<notin> set arm64_gpr_names"
proof -
  have mem: "(''csr10'', csr10) \<in> set register_table"
    by (simp add: register_table_def)
  from csr10_is_invalid_sentinel have
    "\<forall>(n, r) \<in> set register_table.
      if r = invalidGPR then n = ''csr10'' \<and> generate r \<notin> set arm64_gpr_names
      else generate r \<in> set arm64_gpr_names" by blast
  from bspec [OF this mem] csr10_is_invalid_sentinel show ?thesis
    by (simp add: csr10_def invalidGPR_def reg_def)
qed

end
